theory Spec2Isabelle
  imports Complex_Main
begin

section \<open>Python values\<close>

text \<open>
  The values that \<^verbatim>\<open>response.json()\<close> produces and that \<^verbatim>\<open>json=\<close> serialises. A dict is an
  association list read with \<open>map_of\<close> (a JSON object's keys are always strings). The
  client never computes with a float, it only carries it, so a float is represented by the
  number it denotes.
\<close>

datatype py =
    PNone
  | PBool bool
  | PInt int
  | PFloat real
  | PStr string
  | PList "py list"
  | PDict "(string \<times> py) list"

text \<open>
  The exceptions a call can end with. \<open>ConnectionError\<close> stands for every transport
  failure of the HTTP library; \<open>HTTPError\<close> carries the status code and the body of the
  response that caused it; the other three arise while the body is decoded and mapped to
  a record.
\<close>

datatype error =
    ConnectionError
  | HTTPError int string
  | JSONDecodeError
  | KeyError string
  | TypeError

fun is_http_failure :: "error \<Rightarrow> bool" where
  "is_http_failure (HTTPError code b) = True"
| "is_http_failure e = False"

fun is_deserialization_failure :: "error \<Rightarrow> bool" where
  "is_deserialization_failure JSONDecodeError = True"
| "is_deserialization_failure (KeyError k) = True"
| "is_deserialization_failure TypeError = True"
| "is_deserialization_failure e = False"

text \<open>Sequencing of computations that may raise: the first exception ends the computation.\<close>

definition and_then :: "error + 'a \<Rightarrow> ('a \<Rightarrow> error + 'b) \<Rightarrow> error + 'b" where
  "and_then m f = (case m of Inl e \<Rightarrow> Inl e | Inr x \<Rightarrow> f x)"

text \<open>A list comprehension whose element expression may raise.\<close>

fun comprehension :: "('a \<Rightarrow> error + 'b) \<Rightarrow> 'a list \<Rightarrow> error + 'b list" where
  "comprehension f [] = Inr []"
| "comprehension f (x # xs) =
     and_then (f x) (\<lambda>y. and_then (comprehension f xs) (\<lambda>ys. Inr (y # ys)))"

text \<open>\<^verbatim>\<open>data[key]\<close> with a string key: only a dict can be subscripted by a string.\<close>

fun getitem :: "py \<Rightarrow> string \<Rightarrow> error + py" where
  "getitem (PDict kvs) k = (case map_of kvs k of None \<Rightarrow> Inl (KeyError k) | Some v \<Rightarrow> Inr v)"
| "getitem v k = Inl TypeError"

text \<open>\<^verbatim>\<open>for t in value\<close>: a list yields its elements, a dict its keys, a string its characters.\<close>

fun iterate :: "py \<Rightarrow> error + py list" where
  "iterate (PList xs) = Inr xs"
| "iterate (PDict kvs) = Inr (map (\<lambda>kv. PStr (fst kv)) kvs)"
| "iterate (PStr s) = Inr (map (\<lambda>c. PStr [c]) s)"
| "iterate v = Inl TypeError"

text \<open>\<^verbatim>\<open>**value\<close>: the value must be a mapping.\<close>

fun unpack :: "py \<Rightarrow> error + (string \<times> py) list" where
  "unpack (PDict kvs) = Inr kvs"
| "unpack v = Inl TypeError"

text \<open>
  The generated \<^verbatim>\<open>__init__\<close> of a dataclass without defaults, called with keyword
  arguments only: a keyword that is no field raises \<^verbatim>\<open>TypeError\<close>, and so does a field with
  no keyword. On success the values are returned in the order of the fields. The values
  are not checked against the annotated types.
\<close>

definition bind_fields :: "string list \<Rightarrow> (string \<times> py) list \<Rightarrow> error + py list" where
  "bind_fields fields kwargs =
     (if \<not> set (map fst kwargs) \<subseteq> set fields then Inl TypeError
      else case those (map (map_of kwargs) fields) of
             None \<Rightarrow> Inl TypeError
           | Some vs \<Rightarrow> Inr vs)"

section \<open>The typed records\<close>

record TierStatus =
  tier :: py
  name :: py
  model :: py
  active :: py
  requests_today :: py
  avg_latency_ms :: py
  success_rate :: py
  status :: py

record SwarmStatus =
  active_tier :: py
  tier_status :: "TierStatus list"
  current_action :: py
  queue_depth :: py

record Resource =
  id' :: py
  type :: py
  provider :: py
  region :: py
  cost_per_month :: py
  optimization_score :: py
  tags :: py

record ROI =
  ratio :: py
  total_savings :: py
  total_cost :: py
  net_profit :: py

definition TierStatus_fields :: "string list" where
  "TierStatus_fields =
     [''tier'', ''name'', ''model'', ''active'', ''requests_today'', ''avg_latency_ms'',
      ''success_rate'', ''status'']"

definition Resource_fields :: "string list" where
  "Resource_fields =
     [''id'', ''type'', ''provider'', ''region'', ''cost_per_month'', ''optimization_score'',
      ''tags'']"

definition ROI_fields :: "string list" where
  "ROI_fields = [''ratio'', ''total_savings'', ''total_cost'', ''net_profit'']"

text \<open>\<^verbatim>\<open>TierStatus(**t)\<close>, \<^verbatim>\<open>Resource(**r)\<close> and \<^verbatim>\<open>ROI(**data)\<close>.\<close>

definition TierStatus_init :: "py \<Rightarrow> error + TierStatus" where
  "TierStatus_init t =
     and_then (unpack t) (\<lambda>kwargs.
     and_then (bind_fields TierStatus_fields kwargs) (\<lambda>vs.
       case vs of
         [a, b, c, d, e, f, g, h] \<Rightarrow>
           Inr \<lparr>tier = a, name = b, model = c, active = d, requests_today = e,
                avg_latency_ms = f, success_rate = g, status = h\<rparr>
       | _ \<Rightarrow> Inl TypeError))"

definition Resource_init :: "py \<Rightarrow> error + Resource" where
  "Resource_init r =
     and_then (unpack r) (\<lambda>kwargs.
     and_then (bind_fields Resource_fields kwargs) (\<lambda>vs.
       case vs of
         [a, b, c, d, e, f, g] \<Rightarrow>
           Inr \<lparr>id' = a, type = b, provider = c, region = d, cost_per_month = e,
                optimization_score = f, tags = g\<rparr>
       | _ \<Rightarrow> Inl TypeError))"

definition ROI_init :: "py \<Rightarrow> error + ROI" where
  "ROI_init data =
     and_then (unpack data) (\<lambda>kwargs.
     and_then (bind_fields ROI_fields kwargs) (\<lambda>vs.
       case vs of
         [a, b, c, d] \<Rightarrow> Inr \<lparr>ratio = a, total_savings = b, total_cost = c, net_profit = d\<rparr>
       | _ \<Rightarrow> Inl TypeError))"

section \<open>The HTTP session\<close>

text \<open>
  What the client hands to the session for one call, and what comes back. The response
  carries the value its body decodes to, \<open>None\<close> when the body is not JSON.
\<close>

datatype http_method = GET | POST

record request =
  req_method :: http_method
  url :: string
  req_headers :: "string \<rightharpoonup> string"
  params :: "(string \<times> string) list"
  json_body :: "py option"

record response =
  status_code :: int
  body :: string
  json :: "py option"

record session =
  headers :: "string \<rightharpoonup> string"

record TalosClient =
  base_url :: string
  api_key :: "string option"
  session :: session

text \<open>
  The state a call runs in: the client object and the requests issued so far, oldest
  first. The server answers a request with a response, or not at all.
\<close>

record state =
  self :: TalosClient
  sent :: "request list"

type_synonym server = "request \<Rightarrow> response option"

definition session_request :: "server \<Rightarrow> request \<Rightarrow> state \<Rightarrow> (error + response) \<times> state" where
  "session_request srv r s =
     ((case srv r of None \<Rightarrow> Inl ConnectionError | Some resp \<Rightarrow> Inr resp),
      s\<lparr>sent := sent s @ [r]\<rparr>)"

definition session_get ::
  "server \<Rightarrow> string \<Rightarrow> (string \<times> string) list \<Rightarrow> state \<Rightarrow> (error + response) \<times> state" where
  "session_get srv u ps s =
     session_request srv
       \<lparr>req_method = GET, url = u, req_headers = headers (session (self s)), params = ps,
        json_body = None\<rparr> s"

definition session_post ::
  "server \<Rightarrow> string \<Rightarrow> py \<Rightarrow> state \<Rightarrow> (error + response) \<times> state" where
  "session_post srv u payload s =
     session_request srv
       \<lparr>req_method = POST, url = u, req_headers = headers (session (self s)), params = [],
        json_body = Some payload\<rparr> s"

text \<open>
  \<^verbatim>\<open>response.raise_for_status()\<close> of the HTTP library raises for the client-error and
  server-error classes, 400 to 599, and for no other status.
\<close>

definition raise_for_status :: "response \<Rightarrow> error + unit" where
  "raise_for_status r =
     (if 400 \<le> status_code r \<and> status_code r < 600
      then Inl (HTTPError (status_code r) (body r)) else Inr ())"

definition response_json :: "response \<Rightarrow> error + py" where
  "response_json r = (case json r of None \<Rightarrow> Inl JSONDecodeError | Some v \<Rightarrow> Inr v)"

section \<open>The client\<close>

text \<open>\<^verbatim>\<open>str.rstrip(chars)\<close> and the truth value of an \<^verbatim>\<open>Optional[str]\<close>.\<close>

definition rstrip :: "string \<Rightarrow> string \<Rightarrow> string" where
  "rstrip s chars = rev (dropWhile (\<lambda>c. c \<in> set chars) (rev s))"

fun truthy :: "string option \<Rightarrow> bool" where
  "truthy None = False"
| "truthy (Some s) = (s \<noteq> [])"

text \<open>An \<^verbatim>\<open>Optional[str]\<close> inside an f-string.\<close>

fun format_str :: "string option \<Rightarrow> string" where
  "format_str None = ''None''"
| "format_str (Some s) = s"

text \<open>
  \<^verbatim>\<open>TalosClient.__init__\<close>. The first argument is the session that \<^verbatim>\<open>requests.Session()\<close>
  returns; an omitted \<^verbatim>\<open>base_url\<close> is \<open>None\<close>.
\<close>

definition init :: "session \<Rightarrow> string option \<Rightarrow> string option \<Rightarrow> TalosClient" where
  "init fresh base_url_arg api_key_arg =
     \<lparr>base_url =
        rstrip (case base_url_arg of None \<Rightarrow> ''http://localhost:8080'' | Some u \<Rightarrow> u) ''/'',
      api_key = api_key_arg,
      session =
        (if truthy api_key_arg
         then fresh\<lparr>headers := (headers fresh)(''Authorization'' \<mapsto> ''Bearer '' @ format_str api_key_arg)\<rparr>
         else fresh)\<rparr>"

text \<open>
  The methods. Each takes the server and the state and returns the outcome (the exception
  raised, or the value returned) with the state after the call.
\<close>

definition health :: "server \<Rightarrow> state \<Rightarrow> (error + py) \<times> state" where
  "health srv s =
     (case session_get srv (base_url (self s) @ ''/health'') [] s of
        (result, s') \<Rightarrow>
          (and_then result (\<lambda>response.
           and_then (raise_for_status response) (\<lambda>_.
           response_json response)), s'))"

definition get_swarm_status :: "server \<Rightarrow> state \<Rightarrow> (error + SwarmStatus) \<times> state" where
  "get_swarm_status srv s =
     (case session_get srv (base_url (self s) @ ''/api/swarm/live'') [] s of
        (result, s') \<Rightarrow>
          (and_then result (\<lambda>response.
           and_then (raise_for_status response) (\<lambda>_.
           and_then (response_json response) (\<lambda>data.
           and_then (getitem data ''active_tier'') (\<lambda>a.
           and_then (getitem data ''tier_status'') (\<lambda>ts.
           and_then (iterate ts) (\<lambda>elems.
           and_then (comprehension TierStatus_init elems) (\<lambda>tiers.
           and_then (getitem data ''current_action'') (\<lambda>c.
           and_then (getitem data ''queue_depth'') (\<lambda>q.
           Inr \<lparr>active_tier = a, tier_status = tiers, current_action = c,
                queue_depth = q\<rparr>))))))))), s'))"

text \<open>An omitted argument of \<^verbatim>\<open>run_optimization\<close> is \<open>None\<close> and takes the default of the signature.\<close>

definition optimization_payload :: "string option \<Rightarrow> real option \<Rightarrow> bool option \<Rightarrow> py" where
  "optimization_payload type_arg risk_limit_arg dry_run_arg =
     PDict
       [(''type'', PStr (case type_arg of None \<Rightarrow> ''full'' | Some t \<Rightarrow> t)),
        (''risk_limit'', PFloat (case risk_limit_arg of None \<Rightarrow> 7 | Some r \<Rightarrow> r)),
        (''dry_run'', PBool (case dry_run_arg of None \<Rightarrow> True | Some b \<Rightarrow> b))]"

definition run_optimization ::
  "server \<Rightarrow> string option \<Rightarrow> real option \<Rightarrow> bool option \<Rightarrow> state \<Rightarrow> (error + py) \<times> state" where
  "run_optimization srv type_arg risk_limit_arg dry_run_arg s =
     (case session_post srv (base_url (self s) @ ''/api/optimize'')
             (optimization_payload type_arg risk_limit_arg dry_run_arg) s of
        (result, s') \<Rightarrow>
          (and_then result (\<lambda>response.
           and_then (raise_for_status response) (\<lambda>_.
           response_json response)), s'))"

text \<open>\<^verbatim>\<open>if value: params[key] = value\<close>, on the empty dict or after the other filter.\<close>

fun filter_param :: "string \<Rightarrow> string option \<Rightarrow> (string \<times> string) list" where
  "filter_param k None = []"
| "filter_param k (Some v) = (if v \<noteq> [] then [(k, v)] else [])"

definition get_resources ::
  "server \<Rightarrow> string option \<Rightarrow> string option \<Rightarrow> state \<Rightarrow> (error + Resource list) \<times> state" where
  "get_resources srv provider_arg resource_type s =
     (case session_get srv (base_url (self s) @ ''/api/resources'')
             (filter_param ''provider'' provider_arg @ filter_param ''type'' resource_type) s of
        (result, s') \<Rightarrow>
          (and_then result (\<lambda>response.
           and_then (raise_for_status response) (\<lambda>_.
           and_then (response_json response) (\<lambda>data.
           and_then (iterate data) (\<lambda>elems.
           comprehension Resource_init elems)))), s'))"

definition get_roi :: "server \<Rightarrow> state \<Rightarrow> (error + ROI) \<times> state" where
  "get_roi srv s =
     (case session_get srv (base_url (self s) @ ''/api/roi'') [] s of
        (result, s') \<Rightarrow>
          (and_then result (\<lambda>response.
           and_then (raise_for_status response) (\<lambda>_.
           and_then (response_json response) (\<lambda>data.
           ROI_init data))), s'))"

definition chat :: "server \<Rightarrow> string \<Rightarrow> state \<Rightarrow> (error + py) \<times> state" where
  "chat srv message s =
     (case session_post srv (base_url (self s) @ ''/api/ai/chat'')
             (PDict [(''message'', PStr message)]) s of
        (result, s') \<Rightarrow>
          (and_then result (\<lambda>response.
           and_then (raise_for_status response) (\<lambda>_.
           and_then (response_json response) (\<lambda>data.
           getitem data ''response''))), s'))"

definition get_recommendations :: "server \<Rightarrow> state \<Rightarrow> (error + py) \<times> state" where
  "get_recommendations srv s =
     (case session_get srv (base_url (self s) @ ''/api/recommendations'') [] s of
        (result, s') \<Rightarrow>
          (and_then result (\<lambda>response.
           and_then (raise_for_status response) (\<lambda>_.
           response_json response)), s'))"

section \<open>Vocabulary of the properties\<close>

text \<open>The server that answers every request with the response \<open>r\<close>.\<close>

definition answering :: "response \<Rightarrow> server" where
  "answering r = (\<lambda>q. Some r)"

text \<open>The requests a call issues when it runs on the client \<open>c\<close> with nothing sent before.\<close>

definition issued :: "(state \<Rightarrow> 'a \<times> state) \<Rightarrow> TalosClient \<Rightarrow> request list" where
  "issued call c = sent (snd (call \<lparr>self = c, sent = []\<rparr>))"

text \<open>A 2xx status.\<close>

definition success_status :: "response \<Rightarrow> bool" where
  "success_status r = (200 \<le> status_code r \<and> status_code r < 300)"

text \<open>
  The documented shape of a record in a response body: a JSON object with exactly the
  record's fields, in any order.
\<close>

definition TierStatus_items :: "TierStatus \<Rightarrow> (string \<times> py) list" where
  "TierStatus_items t =
     [(''tier'', tier t), (''name'', name t), (''model'', model t), (''active'', active t),
      (''requests_today'', requests_today t), (''avg_latency_ms'', avg_latency_ms t),
      (''success_rate'', success_rate t), (''status'', status t)]"

definition Resource_items :: "Resource \<Rightarrow> (string \<times> py) list" where
  "Resource_items r =
     [(''id'', id' r), (''type'', type r), (''provider'', provider r), (''region'', region r),
      (''cost_per_month'', cost_per_month r), (''optimization_score'', optimization_score r),
      (''tags'', tags r)]"

definition ROI_items :: "ROI \<Rightarrow> (string \<times> py) list" where
  "ROI_items r =
     [(''ratio'', ratio r), (''total_savings'', total_savings r),
      (''total_cost'', total_cost r), (''net_profit'', net_profit r)]"

definition SwarmStatus_fields :: "string list" where
  "SwarmStatus_fields = [''active_tier'', ''tier_status'', ''current_action'', ''queue_depth'']"

fun represents :: "py \<Rightarrow> (string \<times> py) list \<Rightarrow> bool" where
  "represents (PDict kvs) items = (map_of kvs = map_of items)"
| "represents v items = False"

section \<open>Sequencing and decoding\<close>

lemma and_then_Inl [simp]: "and_then (Inl e) f = Inl e"
  by (simp add: and_then_def)

lemma and_then_Inr [simp]: "and_then (Inr x) f = f x"
  by (simp add: and_then_def)

lemma and_then_eq_Inl:
  "and_then m f = Inl e \<Longrightarrow> m = Inl e \<or> (\<exists>x. m = Inr x \<and> f x = Inl e)"
  by (cases m) auto

lemma and_then_eq_Inr:
  "and_then m f = Inr y \<Longrightarrow> \<exists>x. m = Inr x \<and> f x = Inr y"
  by (cases m) auto

lemma comprehension_error:
  "comprehension f xs = Inl e \<Longrightarrow> \<exists>x \<in> set xs. f x = Inl e"
  by (induction xs arbitrary: e) (auto simp: and_then_def split: sum.splits)

lemma comprehension_fails:
  "x \<in> set xs \<Longrightarrow> f x = Inl e \<Longrightarrow> \<exists>e'. comprehension f xs = Inl e'"
  by (induction xs) (auto simp: and_then_def split: sum.splits)

lemma comprehension_ok:
  "list_all2 (\<lambda>x y. f x = Inr y) xs ys \<Longrightarrow> comprehension f xs = Inr ys"
  by (induction xs ys rule: list_all2_induct) auto

lemma comprehension_all_ok:
  "comprehension f xs = Inr ys \<Longrightarrow> x \<in> set xs \<Longrightarrow> \<exists>y. f x = Inr y"
  by (induction xs arbitrary: ys) (auto dest!: and_then_eq_Inr)

lemma getitem_error: "getitem v k = Inl e \<Longrightarrow> is_deserialization_failure e"
  by (cases v) (auto split: option.splits)

lemma getitem_present: "getitem (PDict kvs) k = Inr v \<Longrightarrow> k \<in> fst ` set kvs"
  by (force split: option.splits dest: map_of_SomeD)

lemma iterate_error: "iterate v = Inl e \<Longrightarrow> e = TypeError"
  by (cases v) auto

lemma unpack_error: "unpack v = Inl e \<Longrightarrow> e = TypeError"
  by (cases v) auto

lemma response_json_error: "response_json r = Inl e \<Longrightarrow> e = JSONDecodeError"
  by (auto simp: response_json_def split: option.splits)

lemma raise_for_status_success: "success_status r \<Longrightarrow> raise_for_status r = Inr ()"
  by (simp add: raise_for_status_def success_status_def)

lemma raise_for_status_error:
  "400 \<le> status_code r \<Longrightarrow> status_code r < 600 \<Longrightarrow>
   raise_for_status (r\<lparr>json := j\<rparr>) = Inl (HTTPError (status_code r) (body r))"
  by (simp add: raise_for_status_def)

lemma deserialization_not_http: "is_deserialization_failure e \<Longrightarrow> \<not> is_http_failure e"
  by (cases e) auto

section \<open>Records from keyword arguments\<close>

lemma those_map_of_None:
  "f \<in> set fs \<Longrightarrow> map_of kwargs f = None \<Longrightarrow> those (map (map_of kwargs) fs) = None"
  by (induction fs) (auto split: option.splits)

lemma those_map_Some:
  "\<forall>f \<in> set fs. m f = Some (g f) \<Longrightarrow> those (map m fs) = Some (map g fs)"
  by (induction fs) auto

lemma bind_fields_missing:
  "f \<in> set fs \<Longrightarrow> f \<notin> fst ` set kwargs \<Longrightarrow> bind_fields fs kwargs = Inl TypeError"
  by (simp add: bind_fields_def those_map_of_None map_of_eq_None_iff)

lemma bind_fields_extra:
  "k \<in> fst ` set kwargs \<Longrightarrow> k \<notin> set fs \<Longrightarrow> bind_fields fs kwargs = Inl TypeError"
  by (auto simp: bind_fields_def)

lemma bind_fields_error: "bind_fields fs kwargs = Inl e \<Longrightarrow> e = TypeError"
  by (auto simp: bind_fields_def split: if_splits option.splits)

lemma bind_fields_ok:
  assumes "map_of kwargs = map_of items" and "distinct (map fst items)"
  shows "bind_fields (map fst items) kwargs = Inr (map snd items)"
proof -
  have dom: "fst ` set kwargs = fst ` set items"
    using assms(1) by (metis dom_map_of_conv_image_fst)
  have "\<forall>f \<in> set (map fst items). map_of kwargs f = Some (the (map_of items f))"
    using assms(1) by (auto simp: map_of_eq_None_iff dest!: weak_map_of_SomeI)
  then have "those (map (map_of kwargs) (map fst items)) = Some (map (\<lambda>f. the (map_of items f)) (map fst items))"
    by (rule those_map_Some)
  moreover have "map (\<lambda>f. the (map_of items f)) (map fst items) = map snd items"
    using assms(2) by (induction items) (auto simp: image_iff)
  ultimately show ?thesis
    using dom by (simp add: bind_fields_def)
qed

lemma bind_fields_keys: "bind_fields fs kwargs = Inr vs \<Longrightarrow> fst ` set kwargs = set fs"
proof (rule ccontr)
  assume ok: "bind_fields fs kwargs = Inr vs" and ne: "fst ` set kwargs \<noteq> set fs"
  from ne consider k where "k \<in> fst ` set kwargs" "k \<notin> set fs"
    | f where "f \<in> set fs" "f \<notin> fst ` set kwargs"
    by blast
  then show False
  proof cases
    case 1
    then show False using ok bind_fields_extra [of k kwargs fs] by simp
  next
    case 2
    then show False using ok bind_fields_missing [of f fs kwargs] by simp
  qed
qed

lemma TierStatus_init_error: "TierStatus_init t = Inl e \<Longrightarrow> e = TypeError"
  unfolding TierStatus_init_def
  by (auto dest!: and_then_eq_Inl dest: unpack_error bind_fields_error split: list.splits)

lemma Resource_init_error: "Resource_init t = Inl e \<Longrightarrow> e = TypeError"
  unfolding Resource_init_def
  by (auto dest!: and_then_eq_Inl dest: unpack_error bind_fields_error split: list.splits)

lemma ROI_init_error: "ROI_init t = Inl e \<Longrightarrow> e = TypeError"
  unfolding ROI_init_def
  by (auto dest!: and_then_eq_Inl dest: unpack_error bind_fields_error split: list.splits)

lemma TierStatus_fields_items: "map fst (TierStatus_items t) = TierStatus_fields"
  by (simp add: TierStatus_items_def TierStatus_fields_def)

lemma Resource_fields_items: "map fst (Resource_items t) = Resource_fields"
  by (simp add: Resource_items_def Resource_fields_def)

lemma ROI_fields_items: "map fst (ROI_items t) = ROI_fields"
  by (simp add: ROI_items_def ROI_fields_def)

lemma TierStatus_init_ok: "represents j (TierStatus_items t) \<Longrightarrow> TierStatus_init j = Inr t"
proof (cases j)
  case (PDict kvs)
  assume "represents j (TierStatus_items t)"
  with PDict have m: "map_of kvs = map_of (TierStatus_items t)" by simp
  have d: "distinct (map fst (TierStatus_items t))"
    by (simp add: TierStatus_items_def)
  have "bind_fields TierStatus_fields kvs = Inr (map snd (TierStatus_items t))"
    using bind_fields_ok [OF m d] by (simp add: TierStatus_fields_items)
  then show ?thesis
    using PDict by (simp add: TierStatus_init_def TierStatus_items_def)
qed simp_all

lemma Resource_init_ok: "represents j (Resource_items t) \<Longrightarrow> Resource_init j = Inr t"
proof (cases j)
  case (PDict kvs)
  assume "represents j (Resource_items t)"
  with PDict have m: "map_of kvs = map_of (Resource_items t)" by simp
  have d: "distinct (map fst (Resource_items t))"
    by (simp add: Resource_items_def)
  have "bind_fields Resource_fields kvs = Inr (map snd (Resource_items t))"
    using bind_fields_ok [OF m d] by (simp add: Resource_fields_items)
  then show ?thesis
    using PDict by (simp add: Resource_init_def Resource_items_def)
qed simp_all

lemma ROI_init_ok: "represents j (ROI_items t) \<Longrightarrow> ROI_init j = Inr t"
proof (cases j)
  case (PDict kvs)
  assume "represents j (ROI_items t)"
  with PDict have m: "map_of kvs = map_of (ROI_items t)" by simp
  have d: "distinct (map fst (ROI_items t))"
    by (simp add: ROI_items_def)
  have "bind_fields ROI_fields kvs = Inr (map snd (ROI_items t))"
    using bind_fields_ok [OF m d] by (simp add: ROI_fields_items)
  then show ?thesis
    using PDict by (simp add: ROI_init_def ROI_items_def)
qed simp_all

lemma TierStatus_init_keys:
  "TierStatus_init (PDict kvs) = Inr v \<Longrightarrow> fst ` set kvs = set TierStatus_fields"
  by (auto simp: TierStatus_init_def dest!: and_then_eq_Inr dest: bind_fields_keys)

lemma Resource_init_keys:
  "Resource_init (PDict kvs) = Inr v \<Longrightarrow> fst ` set kvs = set Resource_fields"
  by (auto simp: Resource_init_def dest!: and_then_eq_Inr dest: bind_fields_keys)

lemma ROI_init_keys:
  "ROI_init (PDict kvs) = Inr v \<Longrightarrow> fst ` set kvs = set ROI_fields"
  by (auto simp: ROI_init_def dest!: and_then_eq_Inr dest: bind_fields_keys)

section \<open>The outcome of a call on an answered request\<close>

lemma get_roi_answer:
  "fst (get_roi (answering r) s) =
     and_then (raise_for_status r) (\<lambda>_. and_then (response_json r) ROI_init)"
  by (simp add: get_roi_def session_get_def session_request_def answering_def)

lemma get_resources_answer:
  "fst (get_resources (answering r) p t s) =
     and_then (raise_for_status r) (\<lambda>_. and_then (response_json r) (\<lambda>data.
       and_then (iterate data) (comprehension Resource_init)))"
  by (simp add: get_resources_def session_get_def session_request_def answering_def)

lemma get_swarm_status_answer:
  "fst (get_swarm_status (answering r) s) =
     and_then (raise_for_status r) (\<lambda>_.
     and_then (response_json r) (\<lambda>data.
     and_then (getitem data ''active_tier'') (\<lambda>a.
     and_then (getitem data ''tier_status'') (\<lambda>ts.
     and_then (iterate ts) (\<lambda>elems.
     and_then (comprehension TierStatus_init elems) (\<lambda>tiers.
     and_then (getitem data ''current_action'') (\<lambda>c.
     and_then (getitem data ''queue_depth'') (\<lambda>q.
     Inr \<lparr>active_tier = a, tier_status = tiers, current_action = c,
          queue_depth = q\<rparr>))))))))"
  by (simp add: get_swarm_status_def session_get_def session_request_def answering_def)

lemma get_roi_raises:
  assumes "success_status r" and "fst (get_roi (answering r) s) = Inl e"
  shows "is_deserialization_failure e"
  using assms
  by (auto simp: get_roi_answer raise_for_status_success
      dest!: and_then_eq_Inl dest: response_json_error ROI_init_error)

lemma get_roi_returns:
  assumes "success_status r" and "fst (get_roi (answering r) s) = Inr v"
  shows "\<exists>j. json r = Some j \<and> ROI_init j = Inr v"
  using assms
  by (auto simp: get_roi_answer raise_for_status_success response_json_def
      dest!: and_then_eq_Inr split: option.splits)

lemma get_resources_raises:
  assumes "success_status r" and "fst (get_resources (answering r) p t s) = Inl e"
  shows "is_deserialization_failure e"
  using assms
  by (auto simp: get_resources_answer raise_for_status_success
      dest!: and_then_eq_Inl comprehension_error
      dest: response_json_error iterate_error Resource_init_error)

lemma get_resources_returns:
  assumes "success_status r" and "fst (get_resources (answering r) p t s) = Inr v"
  shows "\<exists>j elems. json r = Some j \<and> iterate j = Inr elems
           \<and> comprehension Resource_init elems = Inr v"
  using assms
  by (auto simp: get_resources_answer raise_for_status_success response_json_def
      dest!: and_then_eq_Inr split: option.splits)

lemma get_swarm_status_raises:
  assumes "success_status r" and "fst (get_swarm_status (answering r) s) = Inl e"
  shows "is_deserialization_failure e"
  using assms
  by (auto simp: get_swarm_status_answer raise_for_status_success
      dest!: and_then_eq_Inl comprehension_error
      dest: response_json_error iterate_error TierStatus_init_error getitem_error)

lemma get_swarm_status_returns:
  assumes "success_status r" and "fst (get_swarm_status (answering r) s) = Inr v"
  shows "\<exists>data a ts elems c q. json r = Some data
           \<and> getitem data ''active_tier'' = Inr a
           \<and> getitem data ''tier_status'' = Inr ts
           \<and> iterate ts = Inr elems
           \<and> comprehension TierStatus_init elems = Inr (tier_status v)
           \<and> getitem data ''current_action'' = Inr c
           \<and> getitem data ''queue_depth'' = Inr q"
  using assms
  by (auto simp: get_swarm_status_answer raise_for_status_success response_json_def
      dest!: and_then_eq_Inr split: option.splits)

lemmas decode_defs =
  raise_for_status_def response_json_def success_status_def bind_fields_def
  ROI_init_def Resource_init_def TierStatus_init_def
  ROI_fields_def Resource_fields_def TierStatus_fields_def SwarmStatus_fields_def

section \<open>The request of each method\<close>

lemma issued_health:
  "issued (health srv) c =
     [\<lparr>req_method = GET, url = base_url c @ ''/health'', req_headers = headers (session c),
       params = [], json_body = None\<rparr>]"
  by (simp add: issued_def health_def session_get_def session_request_def)

lemma issued_get_swarm_status:
  "issued (get_swarm_status srv) c =
     [\<lparr>req_method = GET, url = base_url c @ ''/api/swarm/live'', req_headers = headers (session c),
       params = [], json_body = None\<rparr>]"
  by (simp add: issued_def get_swarm_status_def session_get_def session_request_def)

lemma issued_run_optimization:
  "issued (run_optimization srv ty rl dr) c =
     [\<lparr>req_method = POST, url = base_url c @ ''/api/optimize'', req_headers = headers (session c),
       params = [], json_body = Some (optimization_payload ty rl dr)\<rparr>]"
  by (simp add: issued_def run_optimization_def session_post_def session_request_def)

lemma issued_get_resources:
  "issued (get_resources srv p t) c =
     [\<lparr>req_method = GET, url = base_url c @ ''/api/resources'', req_headers = headers (session c),
       params = filter_param ''provider'' p @ filter_param ''type'' t, json_body = None\<rparr>]"
  by (simp add: issued_def get_resources_def session_get_def session_request_def)

lemma issued_get_roi:
  "issued (get_roi srv) c =
     [\<lparr>req_method = GET, url = base_url c @ ''/api/roi'', req_headers = headers (session c),
       params = [], json_body = None\<rparr>]"
  by (simp add: issued_def get_roi_def session_get_def session_request_def)

lemma issued_chat:
  "issued (chat srv m) c =
     [\<lparr>req_method = POST, url = base_url c @ ''/api/ai/chat'', req_headers = headers (session c),
       params = [], json_body = Some (PDict [(''message'', PStr m)])\<rparr>]"
  by (simp add: issued_def chat_def session_post_def session_request_def)

lemma issued_get_recommendations:
  "issued (get_recommendations srv) c =
     [\<lparr>req_method = GET, url = base_url c @ ''/api/recommendations'',
       req_headers = headers (session c), params = [], json_body = None\<rparr>]"
  by (simp add: issued_def get_recommendations_def session_get_def session_request_def)

lemma filter_param_mem: "(k', v) \<in> set (filter_param k a) \<Longrightarrow> k' = k \<and> a = Some v \<and> v \<noteq> []"
  by (cases a) (auto split: if_splits)



section \<open>Round trip of the typed records\<close>

text \<open>
  C1. A 2xx response whose body has the documented shape is mapped to the record with
  exactly the values of the body: \<open>get_roi\<close> on an object with the four ROI fields,
  \<open>get_resources\<close> on a list of objects with the seven Resource fields, and
  \<open>get_swarm_status\<close> on an object with the four SwarmStatus fields whose \<open>tier_status\<close> is a
  list of objects with the eight TierStatus fields. The order of the keys in an object is
  irrelevant.
\<close>

theorem round_trip:
  "(success_status r \<and> json r = Some j \<and> represents j (ROI_items roi)
      \<longrightarrow> fst (get_roi (answering r) s) = Inr roi)
   \<and> (success_status r \<and> json r = Some (PList js)
        \<and> list_all2 (\<lambda>j res. represents j (Resource_items res)) js rs
      \<longrightarrow> fst (get_resources (answering r) p t s) = Inr rs)
   \<and> (success_status r \<and> json r = Some (PDict kvs)
        \<and> map_of kvs ''active_tier'' = Some a
        \<and> map_of kvs ''tier_status'' = Some (PList tjs)
        \<and> list_all2 (\<lambda>j tier. represents j (TierStatus_items tier)) tjs tiers
        \<and> map_of kvs ''current_action'' = Some c
        \<and> map_of kvs ''queue_depth'' = Some q
      \<longrightarrow> fst (get_swarm_status (answering r) s) =
            Inr \<lparr>active_tier = a, tier_status = tiers, current_action = c, queue_depth = q\<rparr>)"
proof (intro conjI impI)
  assume "success_status r \<and> json r = Some j \<and> represents j (ROI_items roi)"
  then show "fst (get_roi (answering r) s) = Inr roi"
    by (simp add: get_roi_answer raise_for_status_success response_json_def ROI_init_ok)
next
  assume h: "success_status r \<and> json r = Some (PList js)
    \<and> list_all2 (\<lambda>j res. represents j (Resource_items res)) js rs"
  then have "list_all2 (\<lambda>j res. Resource_init j = Inr res) js rs"
    by (auto elim!: list_all2_mono simp: Resource_init_ok)
  then have "comprehension Resource_init js = Inr rs"
    by (rule comprehension_ok)
  with h show "fst (get_resources (answering r) p t s) = Inr rs"
    by (simp add: get_resources_answer raise_for_status_success response_json_def)
next
  assume h: "success_status r \<and> json r = Some (PDict kvs)
        \<and> map_of kvs ''active_tier'' = Some a
        \<and> map_of kvs ''tier_status'' = Some (PList tjs)
        \<and> list_all2 (\<lambda>j tier. represents j (TierStatus_items tier)) tjs tiers
        \<and> map_of kvs ''current_action'' = Some c
        \<and> map_of kvs ''queue_depth'' = Some q"
  then have "list_all2 (\<lambda>j tier. TierStatus_init j = Inr tier) tjs tiers"
    by (auto elim!: list_all2_mono simp: TierStatus_init_ok)
  then have "comprehension TierStatus_init tjs = Inr tiers"
    by (rule comprehension_ok)
  with h show "fst (get_swarm_status (answering r) s) =
      Inr \<lparr>active_tier = a, tier_status = tiers, current_action = c, queue_depth = q\<rparr>"
    by (simp add: get_swarm_status_answer raise_for_status_success response_json_def)
qed

text \<open>
  The scenario of the specification: base URL "http://x", and the example body for
  \<open>get_roi\<close>; a resource whose keys come in another order than the fields; a swarm status
  with one tier.
\<close>

theorem round_trip_witness:
  "fst (get_roi
         (answering
            \<lparr>status_code = 200,
             body = ''{\"ratio\":3.5,\"total_savings\":1000.0,\"total_cost\":200.0,\"net_profit\":800.0}'',
             json = Some (PDict [(''ratio'', PFloat 3.5), (''total_savings'', PFloat 1000),
                                 (''total_cost'', PFloat 200), (''net_profit'', PFloat 800)])\<rparr>)
         \<lparr>self = init \<lparr>headers = Map.empty\<rparr> (Some ''http://x'') None, sent = []\<rparr>) =
     Inr \<lparr>ratio = PFloat 3.5, total_savings = PFloat 1000, total_cost = PFloat 200,
          net_profit = PFloat 800\<rparr>
   \<and> fst (get_resources
         (answering
            \<lparr>status_code = 200, body = [],
             json = Some (PList [PDict [(''tags'', PDict [(''env'', PStr ''prod'')]),
                                        (''id'', PStr ''i-1''), (''type'', PStr ''vm''),
                                        (''provider'', PStr ''aws''), (''region'', PStr ''eu''),
                                        (''cost_per_month'', PFloat 12.5),
                                        (''optimization_score'', PFloat 0.5)]])\<rparr>)
         (Some ''aws'') None
         \<lparr>self = init \<lparr>headers = Map.empty\<rparr> (Some ''http://x'') None, sent = []\<rparr>) =
     Inr [\<lparr>id' = PStr ''i-1'', type = PStr ''vm'', provider = PStr ''aws'', region = PStr ''eu'',
           cost_per_month = PFloat 12.5, optimization_score = PFloat 0.5,
           tags = PDict [(''env'', PStr ''prod'')]\<rparr>]
   \<and> fst (get_swarm_status
         (answering
            \<lparr>status_code = 200, body = [],
             json = Some (PDict [(''active_tier'', PInt 1),
                                 (''tier_status'',
                                  PList [PDict [(''tier'', PInt 1), (''name'', PStr ''fast''),
                                                (''model'', PStr ''m1''), (''active'', PBool True),
                                                (''requests_today'', PInt 10),
                                                (''avg_latency_ms'', PFloat 20.5),
                                                (''success_rate'', PFloat 0.5),
                                                (''status'', PStr ''ok'')]]),
                                 (''current_action'', PStr ''idle''),
                                 (''queue_depth'', PInt 0)])\<rparr>)
         \<lparr>self = init \<lparr>headers = Map.empty\<rparr> (Some ''http://x'') None, sent = []\<rparr>) =
     Inr \<lparr>active_tier = PInt 1,
          tier_status =
            [\<lparr>tier = PInt 1, name = PStr ''fast'', model = PStr ''m1'', active = PBool True,
              requests_today = PInt 10, avg_latency_ms = PFloat 20.5,
              success_rate = PFloat 0.5, status = PStr ''ok''\<rparr>],
          current_action = PStr ''idle'', queue_depth = PInt 0\<rparr>"
proof (intro conjI)
  let ?s = "\<lparr>self = init \<lparr>headers = Map.empty\<rparr> (Some ''http://x'') None, sent = []\<rparr>"
  let ?j = "PDict [(''ratio'', PFloat 3.5), (''total_savings'', PFloat 1000),
                   (''total_cost'', PFloat 200), (''net_profit'', PFloat 800)]"
  let ?r = "\<lparr>status_code = 200,
             body = ''{\"ratio\":3.5,\"total_savings\":1000.0,\"total_cost\":200.0,\"net_profit\":800.0}'',
             json = Some ?j\<rparr>"
  let ?roi = "\<lparr>ratio = PFloat 3.5, total_savings = PFloat 1000, total_cost = PFloat 200,
          net_profit = PFloat 800\<rparr>"
  have "success_status ?r \<and> json ?r = Some ?j \<and> represents ?j (ROI_items ?roi)"
    by (simp add: success_status_def ROI_items_def)
  with round_trip [where r = ?r and j = ?j and roi = ?roi and s = ?s]
  show "fst (get_roi (answering ?r) ?s) = Inr ?roi"
    by blast
next
  let ?s = "\<lparr>self = init \<lparr>headers = Map.empty\<rparr> (Some ''http://x'') None, sent = []\<rparr>"
  let ?j = "PDict [(''tags'', PDict [(''env'', PStr ''prod'')]),
                                        (''id'', PStr ''i-1''), (''type'', PStr ''vm''),
                                        (''provider'', PStr ''aws''), (''region'', PStr ''eu''),
                                        (''cost_per_month'', PFloat 12.5),
                                        (''optimization_score'', PFloat 0.5)]"
  let ?r = "\<lparr>status_code = 200, body = [], json = Some (PList [?j])\<rparr>"
  let ?res = "\<lparr>id' = PStr ''i-1'', type = PStr ''vm'', provider = PStr ''aws'', region = PStr ''eu'',
           cost_per_month = PFloat 12.5, optimization_score = PFloat 0.5,
           tags = PDict [(''env'', PStr ''prod'')]\<rparr>"
  have "success_status ?r \<and> json ?r = Some (PList [?j])
      \<and> list_all2 (\<lambda>j res. represents j (Resource_items res)) [?j] [?res]"
    by (simp add: success_status_def Resource_items_def fun_eq_iff)
  with round_trip [where r = ?r and js = "[?j]" and rs = "[?res]" and s = ?s
      and p = "Some ''aws''" and t = None]
  show "fst (get_resources (answering ?r) (Some ''aws'') None ?s) = Inr [?res]"
    by blast
next
  let ?s = "\<lparr>self = init \<lparr>headers = Map.empty\<rparr> (Some ''http://x'') None, sent = []\<rparr>"
  let ?tj = "PDict [(''tier'', PInt 1), (''name'', PStr ''fast''),
                                                (''model'', PStr ''m1''), (''active'', PBool True),
                                                (''requests_today'', PInt 10),
                                                (''avg_latency_ms'', PFloat 20.5),
                                                (''success_rate'', PFloat 0.5),
                                                (''status'', PStr ''ok'')]"
  let ?kvs = "[(''active_tier'', PInt 1), (''tier_status'', PList [?tj]),
     (''current_action'', PStr ''idle''), (''queue_depth'', PInt 0)]"
  let ?r = "\<lparr>status_code = 200, body = [], json = Some (PDict ?kvs)\<rparr>"
  let ?tier = "\<lparr>tier = PInt 1, name = PStr ''fast'', model = PStr ''m1'', active = PBool True,
              requests_today = PInt 10, avg_latency_ms = PFloat 20.5,
              success_rate = PFloat 0.5, status = PStr ''ok''\<rparr>"
  have "success_status ?r \<and> json ?r = Some (PDict ?kvs)
        \<and> map_of ?kvs ''active_tier'' = Some (PInt 1)
        \<and> map_of ?kvs ''tier_status'' = Some (PList [?tj])
        \<and> list_all2 (\<lambda>j tier. represents j (TierStatus_items tier)) [?tj] [?tier]
        \<and> map_of ?kvs ''current_action'' = Some (PStr ''idle'')
        \<and> map_of ?kvs ''queue_depth'' = Some (PInt 0)"
    by (simp add: success_status_def TierStatus_items_def)
  with round_trip [where r = ?r and kvs = ?kvs and tjs = "[?tj]" and tiers = "[?tier]"
      and s = ?s and a = "PInt 1" and c = "PStr ''idle''" and q = "PInt 0"]
  show "fst (get_swarm_status (answering ?r) ?s) =
      Inr \<lparr>active_tier = PInt 1, tier_status = [?tier], current_action = PStr ''idle'',
           queue_depth = PInt 0\<rparr>"
    by blast
qed

section \<open>HTTP status failures\<close>

text \<open>
  C2, for the statuses that \<open>raise_for_status\<close> rejects. A response with a status from
  400 to 599 ends every method with the HTTP failure that carries the status code and the
  body of the response, whatever the body decodes to and also when it does not decode:
  the body is not looked at.
\<close>

theorem error_status_raises_before_decoding:
  "400 \<le> status_code r \<and> status_code r < 600 \<longrightarrow>
     fst (health (answering (r\<lparr>json := j\<rparr>)) s) = Inl (HTTPError (status_code r) (body r))
     \<and> fst (get_swarm_status (answering (r\<lparr>json := j\<rparr>)) s) =
         Inl (HTTPError (status_code r) (body r))
     \<and> fst (run_optimization (answering (r\<lparr>json := j\<rparr>)) ty rl dr s) =
         Inl (HTTPError (status_code r) (body r))
     \<and> fst (get_resources (answering (r\<lparr>json := j\<rparr>)) p t s) =
         Inl (HTTPError (status_code r) (body r))
     \<and> fst (get_roi (answering (r\<lparr>json := j\<rparr>)) s) = Inl (HTTPError (status_code r) (body r))
     \<and> fst (chat (answering (r\<lparr>json := j\<rparr>)) m s) = Inl (HTTPError (status_code r) (body r))
     \<and> fst (get_recommendations (answering (r\<lparr>json := j\<rparr>)) s) =
         Inl (HTTPError (status_code r) (body r))"
proof (intro impI, elim conjE)
  assume "400 \<le> status_code r" and "status_code r < 600"
  then have *: "raise_for_status (r\<lparr>json := j\<rparr>) = Inl (HTTPError (status_code r) (body r))"
    by (rule raise_for_status_error)
  show "fst (health (answering (r\<lparr>json := j\<rparr>)) s) = Inl (HTTPError (status_code r) (body r))
     \<and> fst (get_swarm_status (answering (r\<lparr>json := j\<rparr>)) s) =
         Inl (HTTPError (status_code r) (body r))
     \<and> fst (run_optimization (answering (r\<lparr>json := j\<rparr>)) ty rl dr s) =
         Inl (HTTPError (status_code r) (body r))
     \<and> fst (get_resources (answering (r\<lparr>json := j\<rparr>)) p t s) =
         Inl (HTTPError (status_code r) (body r))
     \<and> fst (get_roi (answering (r\<lparr>json := j\<rparr>)) s) = Inl (HTTPError (status_code r) (body r))
     \<and> fst (chat (answering (r\<lparr>json := j\<rparr>)) m s) = Inl (HTTPError (status_code r) (body r))
     \<and> fst (get_recommendations (answering (r\<lparr>json := j\<rparr>)) s) =
         Inl (HTTPError (status_code r) (body r))"
    using * by (simp add: health_def get_swarm_status_def run_optimization_def get_resources_def
        get_roi_def chat_def get_recommendations_def session_get_def session_post_def
        session_request_def answering_def)
qed

theorem error_status_raises_before_decoding_witness:
  "(400::int) \<le> 404 \<and> (404::int) < 600
   \<and> fst (get_roi
         (answering
            \<lparr>status_code = 404, body = ''Not Found'',
             json = Some (PDict [(''ratio'', PFloat 3.5), (''total_savings'', PFloat 1000),
                                 (''total_cost'', PFloat 200), (''net_profit'', PFloat 800)])\<rparr>)
         \<lparr>self = init \<lparr>headers = Map.empty\<rparr> (Some ''http://x'') None, sent = []\<rparr>) =
     Inl (HTTPError 404 ''Not Found'')
   \<and> fst (health
         (answering \<lparr>status_code = 404, body = ''Not Found'', json = None\<rparr>)
         \<lparr>self = init \<lparr>headers = Map.empty\<rparr> (Some ''http://x'') None, sent = []\<rparr>) =
     Inl (HTTPError 404 ''Not Found'')"
  using error_status_raises_before_decoding
    [where r = "\<lparr>status_code = 404, body = ''Not Found'', json = None\<rparr>"
       and j = "Some (PDict [(''ratio'', PFloat 3.5), (''total_savings'', PFloat 1000),
                             (''total_cost'', PFloat 200), (''net_profit'', PFloat 800)])"
       and s = "\<lparr>self = init \<lparr>headers = Map.empty\<rparr> (Some ''http://x'') None, sent = []\<rparr>"]
    error_status_raises_before_decoding
    [where r = "\<lparr>status_code = 404, body = ''Not Found'', json = None\<rparr>"
       and j = None
       and s = "\<lparr>self = init \<lparr>headers = Map.empty\<rparr> (Some ''http://x'') None, sent = []\<rparr>"]
  by simp

text \<open>
  C2 read as "every status that is not 2xx" does not hold. A status that is neither 2xx
  nor 4xx or 5xx is not rejected: on a response with status 300 and the example ROI body,
  \<open>get_roi\<close> decodes the body and returns the record.
\<close>

theorem non_2xx_status_accepted:
  "\<not> success_status
       \<lparr>status_code = 300,
        body = ''{\"ratio\":3.5,\"total_savings\":1000.0,\"total_cost\":200.0,\"net_profit\":800.0}'',
        json = Some (PDict [(''ratio'', PFloat 3.5), (''total_savings'', PFloat 1000),
                            (''total_cost'', PFloat 200), (''net_profit'', PFloat 800)])\<rparr>
   \<and> fst (get_roi
         (answering
            \<lparr>status_code = 300,
             body = ''{\"ratio\":3.5,\"total_savings\":1000.0,\"total_cost\":200.0,\"net_profit\":800.0}'',
             json = Some (PDict [(''ratio'', PFloat 3.5), (''total_savings'', PFloat 1000),
                                 (''total_cost'', PFloat 200), (''net_profit'', PFloat 800)])\<rparr>)
         \<lparr>self = init \<lparr>headers = Map.empty\<rparr> (Some ''http://x'') None, sent = []\<rparr>) =
     Inr \<lparr>ratio = PFloat 3.5, total_savings = PFloat 1000, total_cost = PFloat 200,
          net_profit = PFloat 800\<rparr>"
  by (simp add: get_roi_answer decode_defs)

section \<open>Missing and unknown fields\<close>

text \<open>
  C3. A 2xx response whose body lacks a required field of the target record ends the call
  with a deserialization failure, which is no HTTP-status failure: a missing ROI field in
  the object given to \<open>get_roi\<close>, a missing Resource field in an object of the list given to
  \<open>get_resources\<close>, a missing SwarmStatus field in the object given to \<open>get_swarm_status\<close>,
  and a missing TierStatus field in an object of its \<open>tier_status\<close> list. No record is
  returned, so no field is defaulted.
\<close>

theorem missing_field_raises:
  "(success_status r \<and> json r = Some (PDict kvs) \<and> f \<in> set ROI_fields \<and> f \<notin> fst ` set kvs
      \<longrightarrow> (\<exists>e. fst (get_roi (answering r) s) = Inl e
             \<and> is_deserialization_failure e \<and> \<not> is_http_failure e))
   \<and> (success_status r \<and> json r = Some (PList js) \<and> PDict kvs \<in> set js
        \<and> f \<in> set Resource_fields \<and> f \<notin> fst ` set kvs
      \<longrightarrow> (\<exists>e. fst (get_resources (answering r) p t s) = Inl e
             \<and> is_deserialization_failure e \<and> \<not> is_http_failure e))
   \<and> (success_status r \<and> json r = Some (PDict kvs)
        \<and> f \<in> set SwarmStatus_fields \<and> f \<notin> fst ` set kvs
      \<longrightarrow> (\<exists>e. fst (get_swarm_status (answering r) s) = Inl e
             \<and> is_deserialization_failure e \<and> \<not> is_http_failure e))
   \<and> (success_status r \<and> json r = Some (PDict kvs)
        \<and> map_of kvs ''tier_status'' = Some (PList js) \<and> PDict tkvs \<in> set js
        \<and> f \<in> set TierStatus_fields \<and> f \<notin> fst ` set tkvs
      \<longrightarrow> (\<exists>e. fst (get_swarm_status (answering r) s) = Inl e
             \<and> is_deserialization_failure e \<and> \<not> is_http_failure e))"
proof (intro conjI impI)
  assume h: "success_status r \<and> json r = Some (PDict kvs) \<and> f \<in> set ROI_fields
    \<and> f \<notin> fst ` set kvs"
  show "\<exists>e. fst (get_roi (answering r) s) = Inl e
      \<and> is_deserialization_failure e \<and> \<not> is_http_failure e"
  proof (cases "fst (get_roi (answering r) s)")
    case (Inl e)
    with h show ?thesis
      using get_roi_raises deserialization_not_http by blast
  next
    case (Inr v)
    with h have "ROI_init (PDict kvs) = Inr v"
      using get_roi_returns [of r s v] by auto
    with h show ?thesis
      by (auto dest: ROI_init_keys)
  qed
next
  assume h: "success_status r \<and> json r = Some (PList js) \<and> PDict kvs \<in> set js
    \<and> f \<in> set Resource_fields \<and> f \<notin> fst ` set kvs"
  show "\<exists>e. fst (get_resources (answering r) p t s) = Inl e
      \<and> is_deserialization_failure e \<and> \<not> is_http_failure e"
  proof (cases "fst (get_resources (answering r) p t s)")
    case (Inl e)
    with h show ?thesis
      using get_resources_raises deserialization_not_http by blast
  next
    case (Inr v)
    with h have "comprehension Resource_init js = Inr v"
      using get_resources_returns [of r p t s v] by auto
    with h obtain y where "Resource_init (PDict kvs) = Inr y"
      using comprehension_all_ok [of Resource_init js v "PDict kvs"] by auto
    with h show ?thesis
      by (auto dest: Resource_init_keys)
  qed
next
  assume h: "success_status r \<and> json r = Some (PDict kvs)
    \<and> f \<in> set SwarmStatus_fields \<and> f \<notin> fst ` set kvs"
  show "\<exists>e. fst (get_swarm_status (answering r) s) = Inl e
      \<and> is_deserialization_failure e \<and> \<not> is_http_failure e"
  proof (cases "fst (get_swarm_status (answering r) s)")
    case (Inl e)
    with h show ?thesis
      using get_swarm_status_raises deserialization_not_http by blast
  next
    case (Inr v)
    with h obtain a ts c q where
      g: "getitem (PDict kvs) ''active_tier'' = Inr a"
         "getitem (PDict kvs) ''tier_status'' = Inr ts"
         "getitem (PDict kvs) ''current_action'' = Inr c"
         "getitem (PDict kvs) ''queue_depth'' = Inr q"
      using get_swarm_status_returns [of r s v] by auto
    have "set SwarmStatus_fields \<subseteq> fst ` set kvs"
      using g [THEN getitem_present] by (simp add: SwarmStatus_fields_def)
    with h show ?thesis by blast
  qed
next
  assume h: "success_status r \<and> json r = Some (PDict kvs)
    \<and> map_of kvs ''tier_status'' = Some (PList js) \<and> PDict tkvs \<in> set js
    \<and> f \<in> set TierStatus_fields \<and> f \<notin> fst ` set tkvs"
  show "\<exists>e. fst (get_swarm_status (answering r) s) = Inl e
      \<and> is_deserialization_failure e \<and> \<not> is_http_failure e"
  proof (cases "fst (get_swarm_status (answering r) s)")
    case (Inl e)
    with h show ?thesis
      using get_swarm_status_raises deserialization_not_http by blast
  next
    case (Inr v)
    with h have "comprehension TierStatus_init js = Inr (tier_status v)"
      using get_swarm_status_returns [of r s v] by auto
    with h obtain y where "TierStatus_init (PDict tkvs) = Inr y"
      using comprehension_all_ok [of TierStatus_init js "tier_status v" "PDict tkvs"] by auto
    with h show ?thesis
      by (auto dest: TierStatus_init_keys)
  qed
qed

theorem missing_field_raises_witness:
  "fst (get_roi
         (answering
            \<lparr>status_code = 200, body = ''{\"ratio\":3.5,\"total_savings\":1000.0,\"total_cost\":200.0}'',
             json = Some (PDict [(''ratio'', PFloat 3.5), (''total_savings'', PFloat 1000),
                                 (''total_cost'', PFloat 200)])\<rparr>)
         \<lparr>self = init \<lparr>headers = Map.empty\<rparr> (Some ''http://x'') None, sent = []\<rparr>) =
     Inl TypeError
   \<and> fst (get_resources
         (answering
            \<lparr>status_code = 200, body = ''[{\"id\":\"i-1\"}]'',
             json = Some (PList [PDict [(''id'', PStr ''i-1'')]])\<rparr>)
         None None
         \<lparr>self = init \<lparr>headers = Map.empty\<rparr> (Some ''http://x'') None, sent = []\<rparr>) =
     Inl TypeError
   \<and> fst (get_swarm_status
         (answering
            \<lparr>status_code = 200, body = [],
             json = Some (PDict [(''active_tier'', PInt 1), (''tier_status'', PList []),
                                 (''current_action'', PStr ''idle'')])\<rparr>)
         \<lparr>self = init \<lparr>headers = Map.empty\<rparr> (Some ''http://x'') None, sent = []\<rparr>) =
     Inl (KeyError ''queue_depth'')
   \<and> fst (get_swarm_status
         (answering
            \<lparr>status_code = 200, body = [],
             json = Some (PDict [(''active_tier'', PInt 1),
                                 (''tier_status'', PList [PDict [(''tier'', PInt 1)]]),
                                 (''current_action'', PStr ''idle''),
                                 (''queue_depth'', PInt 0)])\<rparr>)
         \<lparr>self = init \<lparr>headers = Map.empty\<rparr> (Some ''http://x'') None, sent = []\<rparr>) =
     Inl TypeError"
proof (intro conjI)
  let ?s = "\<lparr>self = init \<lparr>headers = Map.empty\<rparr> (Some ''http://x'') None, sent = []\<rparr>"
  let ?kvs = "[(''ratio'', PFloat 3.5), (''total_savings'', PFloat 1000),
               (''total_cost'', PFloat 200)]"
  let ?r = "\<lparr>status_code = 200, body = ''{\"ratio\":3.5,\"total_savings\":1000.0,\"total_cost\":200.0}'',
             json = Some (PDict ?kvs)\<rparr>"
  have "success_status ?r \<and> json ?r = Some (PDict ?kvs) \<and> ''net_profit'' \<in> set ROI_fields
      \<and> ''net_profit'' \<notin> fst ` set ?kvs"
    by (simp add: success_status_def ROI_fields_def)
  with missing_field_raises [where r = ?r and kvs = ?kvs and f = "''net_profit''" and s = ?s]
  obtain e where "fst (get_roi (answering ?r) ?s) = Inl e"
    by blast
  then show "fst (get_roi (answering ?r) ?s) = Inl TypeError"
    by (simp add: get_roi_answer decode_defs)
next
  let ?s = "\<lparr>self = init \<lparr>headers = Map.empty\<rparr> (Some ''http://x'') None, sent = []\<rparr>"
  let ?kvs = "[(''id'', PStr ''i-1'')]"
  let ?r = "\<lparr>status_code = 200, body = ''[{\"id\":\"i-1\"}]'',
             json = Some (PList [PDict ?kvs])\<rparr>"
  have "success_status ?r \<and> json ?r = Some (PList [PDict ?kvs]) \<and> PDict ?kvs \<in> set [PDict ?kvs]
      \<and> ''type'' \<in> set Resource_fields \<and> ''type'' \<notin> fst ` set ?kvs"
    by (simp add: success_status_def Resource_fields_def)
  with missing_field_raises [where r = ?r and kvs = ?kvs and js = "[PDict ?kvs]"
      and f = "''type''" and s = ?s and p = None and t = None]
  obtain e where "fst (get_resources (answering ?r) None None ?s) = Inl e"
    by blast
  then show "fst (get_resources (answering ?r) None None ?s) = Inl TypeError"
    by (simp add: get_resources_answer decode_defs)
next
  let ?s = "\<lparr>self = init \<lparr>headers = Map.empty\<rparr> (Some ''http://x'') None, sent = []\<rparr>"
  let ?kvs = "[(''active_tier'', PInt 1), (''tier_status'', PList []),
               (''current_action'', PStr ''idle'')]"
  let ?r = "\<lparr>status_code = 200, body = [], json = Some (PDict ?kvs)\<rparr>"
  have "success_status ?r \<and> json ?r = Some (PDict ?kvs)
      \<and> ''queue_depth'' \<in> set SwarmStatus_fields \<and> ''queue_depth'' \<notin> fst ` set ?kvs"
    by (simp add: success_status_def SwarmStatus_fields_def)
  with missing_field_raises [where r = ?r and kvs = ?kvs and f = "''queue_depth''" and s = ?s]
  obtain e where "fst (get_swarm_status (answering ?r) ?s) = Inl e"
    by blast
  then show "fst (get_swarm_status (answering ?r) ?s) = Inl (KeyError ''queue_depth'')"
    by (simp add: get_swarm_status_answer decode_defs)
next
  let ?s = "\<lparr>self = init \<lparr>headers = Map.empty\<rparr> (Some ''http://x'') None, sent = []\<rparr>"
  let ?tkvs = "[(''tier'', PInt 1)]"
  let ?kvs = "[(''active_tier'', PInt 1), (''tier_status'', PList [PDict ?tkvs]),
               (''current_action'', PStr ''idle''), (''queue_depth'', PInt 0)]"
  let ?r = "\<lparr>status_code = 200, body = [], json = Some (PDict ?kvs)\<rparr>"
  have "success_status ?r \<and> json ?r = Some (PDict ?kvs)
      \<and> map_of ?kvs ''tier_status'' = Some (PList [PDict ?tkvs])
      \<and> PDict ?tkvs \<in> set [PDict ?tkvs]
      \<and> ''status'' \<in> set TierStatus_fields \<and> ''status'' \<notin> fst ` set ?tkvs"
    by (simp add: success_status_def TierStatus_fields_def)
  with missing_field_raises [where r = ?r and kvs = ?kvs and js = "[PDict ?tkvs]"
      and tkvs = ?tkvs and f = "''status''" and s = ?s]
  obtain e where "fst (get_swarm_status (answering ?r) ?s) = Inl e"
    by blast
  then show "fst (get_swarm_status (answering ?r) ?s) = Inl TypeError"
    by (simp add: get_swarm_status_answer decode_defs)
qed

text \<open>
  C9. A 2xx response with a key that is no field of the record, in the ROI object, in a
  Resource object of the list or in a TierStatus object of the \<open>tier_status\<close> list, ends
  the call with a deserialization failure: the record is not built.
\<close>

theorem unknown_field_raises:
  "(success_status r \<and> json r = Some (PDict kvs) \<and> k \<in> fst ` set kvs \<and> k \<notin> set ROI_fields
      \<longrightarrow> fst (get_roi (answering r) s) = Inl TypeError)
   \<and> (success_status r \<and> json r = Some (PList js) \<and> PDict kvs \<in> set js
        \<and> k \<in> fst ` set kvs \<and> k \<notin> set Resource_fields
      \<longrightarrow> fst (get_resources (answering r) p t s) = Inl TypeError)
   \<and> (success_status r \<and> json r = Some (PDict kvs)
        \<and> map_of kvs ''tier_status'' = Some (PList js) \<and> PDict tkvs \<in> set js
        \<and> k \<in> fst ` set tkvs \<and> k \<notin> set TierStatus_fields
      \<longrightarrow> (\<exists>e. fst (get_swarm_status (answering r) s) = Inl e
             \<and> is_deserialization_failure e \<and> \<not> is_http_failure e))"
proof (intro conjI impI)
  assume h: "success_status r \<and> json r = Some (PDict kvs) \<and> k \<in> fst ` set kvs
    \<and> k \<notin> set ROI_fields"
  then have "bind_fields ROI_fields kvs = Inl TypeError"
    using bind_fields_extra [of k kvs ROI_fields] by simp
  with h show "fst (get_roi (answering r) s) = Inl TypeError"
    by (simp add: get_roi_answer raise_for_status_success response_json_def ROI_init_def)
next
  assume h: "success_status r \<and> json r = Some (PList js) \<and> PDict kvs \<in> set js
    \<and> k \<in> fst ` set kvs \<and> k \<notin> set Resource_fields"
  then have "bind_fields Resource_fields kvs = Inl TypeError"
    using bind_fields_extra [of k kvs Resource_fields] by simp
  then have "Resource_init (PDict kvs) = Inl TypeError"
    by (simp add: Resource_init_def)
  with h obtain e where e: "comprehension Resource_init js = Inl e"
    using comprehension_fails [of "PDict kvs" js Resource_init TypeError] by auto
  then have "e = TypeError"
    by (auto dest!: comprehension_error dest: Resource_init_error)
  with h e show "fst (get_resources (answering r) p t s) = Inl TypeError"
    by (simp add: get_resources_answer raise_for_status_success response_json_def)
next
  assume h: "success_status r \<and> json r = Some (PDict kvs)
    \<and> map_of kvs ''tier_status'' = Some (PList js) \<and> PDict tkvs \<in> set js
    \<and> k \<in> fst ` set tkvs \<and> k \<notin> set TierStatus_fields"
  show "\<exists>e. fst (get_swarm_status (answering r) s) = Inl e
      \<and> is_deserialization_failure e \<and> \<not> is_http_failure e"
  proof (cases "fst (get_swarm_status (answering r) s)")
    case (Inl e)
    with h show ?thesis
      using get_swarm_status_raises deserialization_not_http by blast
  next
    case (Inr v)
    with h have "comprehension TierStatus_init js = Inr (tier_status v)"
      using get_swarm_status_returns [of r s v] by auto
    with h obtain y where "TierStatus_init (PDict tkvs) = Inr y"
      using comprehension_all_ok [of TierStatus_init js "tier_status v" "PDict tkvs"] by auto
    with h show ?thesis
      by (auto dest: TierStatus_init_keys)
  qed
qed

theorem unknown_field_raises_witness:
  "fst (get_roi
         (answering
            \<lparr>status_code = 200, body = [],
             json = Some (PDict [(''ratio'', PFloat 3.5), (''total_savings'', PFloat 1000),
                                 (''total_cost'', PFloat 200), (''net_profit'', PFloat 800),
                                 (''currency'', PStr ''USD'')])\<rparr>)
         \<lparr>self = init \<lparr>headers = Map.empty\<rparr> (Some ''http://x'') None, sent = []\<rparr>) =
     Inl TypeError
   \<and> fst (get_resources
         (answering
            \<lparr>status_code = 200, body = [],
             json = Some (PList [PDict [(''id'', PStr ''i-1''), (''type'', PStr ''vm''),
                                        (''provider'', PStr ''aws''), (''region'', PStr ''eu''),
                                        (''cost_per_month'', PFloat 12.5),
                                        (''optimization_score'', PFloat 0.5),
                                        (''tags'', PDict []), (''owner'', PStr ''ops'')]])\<rparr>)
         None None
         \<lparr>self = init \<lparr>headers = Map.empty\<rparr> (Some ''http://x'') None, sent = []\<rparr>) =
     Inl TypeError
   \<and> fst (get_swarm_status
         (answering
            \<lparr>status_code = 200, body = [],
             json = Some (PDict [(''active_tier'', PInt 1),
                                 (''tier_status'',
                                  PList [PDict [(''tier'', PInt 1), (''name'', PStr ''fast''),
                                                (''model'', PStr ''m1''), (''active'', PBool True),
                                                (''requests_today'', PInt 10),
                                                (''avg_latency_ms'', PFloat 20.5),
                                                (''success_rate'', PFloat 0.5),
                                                (''status'', PStr ''ok''),
                                                (''errors'', PInt 0)]]),
                                 (''current_action'', PStr ''idle''),
                                 (''queue_depth'', PInt 0)])\<rparr>)
         \<lparr>self = init \<lparr>headers = Map.empty\<rparr> (Some ''http://x'') None, sent = []\<rparr>) =
     Inl TypeError"
proof (intro conjI)
  let ?s = "\<lparr>self = init \<lparr>headers = Map.empty\<rparr> (Some ''http://x'') None, sent = []\<rparr>"
  let ?kvs = "[(''ratio'', PFloat 3.5), (''total_savings'', PFloat 1000),
               (''total_cost'', PFloat 200), (''net_profit'', PFloat 800),
               (''currency'', PStr ''USD'')]"
  let ?r = "\<lparr>status_code = 200, body = [], json = Some (PDict ?kvs)\<rparr>"
  have "success_status ?r \<and> json ?r = Some (PDict ?kvs) \<and> ''currency'' \<in> fst ` set ?kvs
      \<and> ''currency'' \<notin> set ROI_fields"
    by (simp add: success_status_def ROI_fields_def)
  with unknown_field_raises [where r = ?r and kvs = ?kvs and k = "''currency''" and s = ?s]
  show "fst (get_roi (answering ?r) ?s) = Inl TypeError"
    by blast
next
  let ?s = "\<lparr>self = init \<lparr>headers = Map.empty\<rparr> (Some ''http://x'') None, sent = []\<rparr>"
  let ?kvs = "[(''id'', PStr ''i-1''), (''type'', PStr ''vm''),
                                        (''provider'', PStr ''aws''), (''region'', PStr ''eu''),
                                        (''cost_per_month'', PFloat 12.5),
                                        (''optimization_score'', PFloat 0.5),
                                        (''tags'', PDict []), (''owner'', PStr ''ops'')]"
  let ?r = "\<lparr>status_code = 200, body = [], json = Some (PList [PDict ?kvs])\<rparr>"
  have "success_status ?r \<and> json ?r = Some (PList [PDict ?kvs]) \<and> PDict ?kvs \<in> set [PDict ?kvs]
      \<and> ''owner'' \<in> fst ` set ?kvs \<and> ''owner'' \<notin> set Resource_fields"
    by (simp add: success_status_def Resource_fields_def)
  with unknown_field_raises [where r = ?r and kvs = ?kvs and js = "[PDict ?kvs]"
      and k = "''owner''" and s = ?s and p = None and t = None]
  show "fst (get_resources (answering ?r) None None ?s) = Inl TypeError"
    by blast
next
  let ?s = "\<lparr>self = init \<lparr>headers = Map.empty\<rparr> (Some ''http://x'') None, sent = []\<rparr>"
  let ?tkvs = "[(''tier'', PInt 1), (''name'', PStr ''fast''),
                                                (''model'', PStr ''m1''), (''active'', PBool True),
                                                (''requests_today'', PInt 10),
                                                (''avg_latency_ms'', PFloat 20.5),
                                                (''success_rate'', PFloat 0.5),
                                                (''status'', PStr ''ok''),
                                                (''errors'', PInt 0)]"
  let ?kvs = "[(''active_tier'', PInt 1), (''tier_status'', PList [PDict ?tkvs]),
               (''current_action'', PStr ''idle''), (''queue_depth'', PInt 0)]"
  let ?r = "\<lparr>status_code = 200, body = [], json = Some (PDict ?kvs)\<rparr>"
  have "success_status ?r \<and> json ?r = Some (PDict ?kvs)
      \<and> map_of ?kvs ''tier_status'' = Some (PList [PDict ?tkvs])
      \<and> PDict ?tkvs \<in> set [PDict ?tkvs]
      \<and> ''errors'' \<in> fst ` set ?tkvs \<and> ''errors'' \<notin> set TierStatus_fields"
    by (simp add: success_status_def TierStatus_fields_def)
  with unknown_field_raises [where r = ?r and kvs = ?kvs and js = "[PDict ?tkvs]"
      and tkvs = ?tkvs and k = "''errors''" and s = ?s]
  obtain e where "fst (get_swarm_status (answering ?r) ?s) = Inl e"
    by blast
  then show "fst (get_swarm_status (answering ?r) ?s) = Inl TypeError"
    by (simp add: get_swarm_status_answer decode_defs)
qed

section \<open>Request bodies and query parameters\<close>

text \<open>
  C4. \<open>run_optimization\<close> called with no arguments posts the body with \<open>type\<close> "full",
  \<open>risk_limit\<close> 7.0 and \<open>dry_run\<close> true; whatever the arguments, the posted body has
  \<open>dry_run\<close> false exactly when the caller passed \<open>dry_run=False\<close>.
\<close>

theorem run_optimization_dry_run_default:
  "map json_body (issued (run_optimization srv None None None) c) =
     [Some (PDict [(''type'', PStr ''full''), (''risk_limit'', PFloat 7), (''dry_run'', PBool True)])]
   \<and> (\<exists>payload. map json_body (issued (run_optimization srv ty rl dr) c) = [Some payload]
         \<and> (getitem payload ''dry_run'' = Inr (PBool False)) = (dr = Some False))"
  by (cases dr) (auto simp: issued_run_optimization optimization_payload_def)

theorem run_optimization_dry_run_default_witness:
  "map json_body
     (issued (run_optimization (\<lambda>q. None) None None None)
        (init \<lparr>headers = Map.empty\<rparr> (Some ''http://x'') None)) =
     [Some (PDict [(''type'', PStr ''full''), (''risk_limit'', PFloat 7), (''dry_run'', PBool True)])]"
  using run_optimization_dry_run_default
    [of "\<lambda>q. None" "init \<lparr>headers = Map.empty\<rparr> (Some ''http://x'') None"]
  by simp

text \<open>
  C5. \<open>get_resources\<close> issues one request. With no filter it sends no query parameter;
  with provider "aws" and no resource type it sends the single parameter \<open>provider=aws\<close>.
  In general a non-empty provider alone is sent as the single parameter \<open>provider\<close>, a
  non-empty resource type alone as the single parameter \<open>type\<close>, both together as
  \<open>provider\<close> followed by \<open>type\<close>; and whatever the arguments, a query parameter is
  sent exactly when it is \<open>provider\<close> with the non-empty value of the provider argument or
  \<open>type\<close> with the non-empty value of the resource type argument. So each filter is sent
  when it is present with a value, and only then.
\<close>

theorem get_resources_query_parameters:
  "map params (issued (get_resources srv None None) c) = [[]]
   \<and> map params (issued (get_resources srv (Some ''aws'') None) c) = [[(''provider'', ''aws'')]]
   \<and> (a \<noteq> [] \<longrightarrow>
        map params (issued (get_resources srv (Some a) None) c) = [[(''provider'', a)]])
   \<and> (b \<noteq> [] \<longrightarrow>
        map params (issued (get_resources srv None (Some b)) c) = [[(''type'', b)]])
   \<and> (a \<noteq> [] \<and> b \<noteq> [] \<longrightarrow>
        map params (issued (get_resources srv (Some a) (Some b)) c) =
          [[(''provider'', a), (''type'', b)]])
   \<and> length (issued (get_resources srv p t) c) = 1
   \<and> (q \<in> set (issued (get_resources srv p t) c) \<longrightarrow>
        ((k, v) \<in> set (params q)) =
          (k = ''provider'' \<and> p = Some v \<and> v \<noteq> [] \<or> k = ''type'' \<and> t = Some v \<and> v \<noteq> []))"
proof -
  have mem: "((k, v) \<in> set (filter_param ''provider'' p @ filter_param ''type'' t)) =
      (k = ''provider'' \<and> p = Some v \<and> v \<noteq> [] \<or> k = ''type'' \<and> t = Some v \<and> v \<noteq> [])"
    by (cases p; cases t) auto
  show ?thesis
    using mem by (auto simp: issued_get_resources)
qed

theorem get_resources_query_parameters_witness:
  "''aws'' \<noteq> [] \<and> ''ec2'' \<noteq> []
   \<and> map params
       (issued (get_resources (\<lambda>q. None) (Some ''aws'') (Some ''ec2''))
          (init \<lparr>headers = Map.empty\<rparr> (Some ''http://x'') None)) =
       [[(''provider'', ''aws''), (''type'', ''ec2'')]]
   \<and> map params
       (issued (get_resources (\<lambda>q. None) None (Some ''ec2''))
          (init \<lparr>headers = Map.empty\<rparr> (Some ''http://x'') None)) =
       [[(''type'', ''ec2'')]]
   \<and> \<lparr>req_method = GET, url = ''http://x/api/resources'', req_headers = Map.empty,
       params = [(''provider'', ''aws''), (''type'', ''ec2'')], json_body = None\<rparr>
       \<in> set (issued (get_resources (\<lambda>q. None) (Some ''aws'') (Some ''ec2''))
                 (init \<lparr>headers = Map.empty\<rparr> (Some ''http://x'') None))
   \<and> (''type'', ''ec2'')
       \<in> set (params \<lparr>req_method = GET, url = ''http://x/api/resources'',
                       req_headers = Map.empty,
                       params = [(''provider'', ''aws''), (''type'', ''ec2'')],
                       json_body = None\<rparr>)"
proof -
  let ?c = "init \<lparr>headers = Map.empty\<rparr> (Some ''http://x'') None"
  let ?q = "\<lparr>req_method = GET, url = ''http://x/api/resources'', req_headers = Map.empty,
       params = [(''provider'', ''aws''), (''type'', ''ec2'')], json_body = None\<rparr>"
  note inst = get_resources_query_parameters
    [where srv = "\<lambda>q. None" and c = ?c and a = "''aws''" and b = "''ec2''"
       and p = "Some ''aws''" and t = "Some ''ec2''" and q = ?q and k = "''type''"
       and v = "''ec2''"]
  have ne: "''aws'' \<noteq> [] \<and> ''ec2'' \<noteq> []" by simp
  have both: "map params (issued (get_resources (\<lambda>q. None) (Some ''aws'') (Some ''ec2'')) ?c) =
      [[(''provider'', ''aws''), (''type'', ''ec2'')]]"
    using inst ne by blast
  have one: "map params (issued (get_resources (\<lambda>q. None) None (Some ''ec2'')) ?c) =
      [[(''type'', ''ec2'')]]"
    using inst ne by blast
  have q: "?q \<in> set (issued (get_resources (\<lambda>q. None) (Some ''aws'') (Some ''ec2'')) ?c)"
    by (simp add: issued_get_resources init_def rstrip_def)
  have "(''type'', ''ec2'') \<in> set (params ?q)"
    using inst q by blast
  with ne both one q show ?thesis by blast
qed

text \<open>
  C10. \<open>get_resources\<close> called with the empty string as provider, or as resource type,
  behaves as the call without that filter, and no query parameter it sends has the empty
  string as its value.
\<close>

theorem empty_filter_is_absent:
  "get_resources srv (Some []) t s = get_resources srv None t s
   \<and> get_resources srv p (Some []) s = get_resources srv p None s
   \<and> (q \<in> set (issued (get_resources srv p t) c) \<and> (k, v) \<in> set (params q) \<longrightarrow> v \<noteq> [])"
  by (auto simp: get_resources_def issued_get_resources dest: filter_param_mem)

theorem empty_filter_is_absent_witness:
  "get_resources (\<lambda>q. None) (Some []) (Some ''ec2'')
     \<lparr>self = init \<lparr>headers = Map.empty\<rparr> (Some ''http://x'') None, sent = []\<rparr> =
   get_resources (\<lambda>q. None) None (Some ''ec2'')
     \<lparr>self = init \<lparr>headers = Map.empty\<rparr> (Some ''http://x'') None, sent = []\<rparr>
   \<and> map params
      (issued (get_resources (\<lambda>q. None) (Some []) (Some ''ec2''))
         (init \<lparr>headers = Map.empty\<rparr> (Some ''http://x'') None)) = [[(''type'', ''ec2'')]]
   \<and> (''type'', ''ec2'') \<in> set [(''type'', ''ec2'')] \<and> ''ec2'' \<noteq> []"
  using empty_filter_is_absent
    [of "\<lambda>q. None" "Some ''ec2''"
        "\<lparr>self = init \<lparr>headers = Map.empty\<rparr> (Some ''http://x'') None, sent = []\<rparr>"]
  by (simp add: issued_get_resources)

section \<open>Construction\<close>

text \<open>
  C6, for the keys that are truthy. A client constructed with a non-empty API key sends
  the header \<open>Authorization: Bearer <api_key>\<close> with the request of every method. A
  client constructed without an API key sends the headers of the fresh session with the
  request of every method: none is added.
\<close>

theorem bearer_header_on_every_request:
  "(k \<noteq> [] \<longrightarrow>
      map (\<lambda>q. req_headers q ''Authorization'') (issued (health srv) (init fresh u (Some k))) =
        [Some (''Bearer '' @ k)]
      \<and> map (\<lambda>q. req_headers q ''Authorization'')
          (issued (get_swarm_status srv) (init fresh u (Some k))) = [Some (''Bearer '' @ k)]
      \<and> map (\<lambda>q. req_headers q ''Authorization'')
          (issued (run_optimization srv ty rl dr) (init fresh u (Some k))) =
          [Some (''Bearer '' @ k)]
      \<and> map (\<lambda>q. req_headers q ''Authorization'')
          (issued (get_resources srv p t) (init fresh u (Some k))) = [Some (''Bearer '' @ k)]
      \<and> map (\<lambda>q. req_headers q ''Authorization'') (issued (get_roi srv) (init fresh u (Some k))) =
          [Some (''Bearer '' @ k)]
      \<and> map (\<lambda>q. req_headers q ''Authorization'') (issued (chat srv m) (init fresh u (Some k))) =
          [Some (''Bearer '' @ k)]
      \<and> map (\<lambda>q. req_headers q ''Authorization'')
          (issued (get_recommendations srv) (init fresh u (Some k))) = [Some (''Bearer '' @ k)])
   \<and> map req_headers (issued (health srv) (init fresh u None)) = [headers fresh]
   \<and> map req_headers (issued (get_swarm_status srv) (init fresh u None)) = [headers fresh]
   \<and> map req_headers (issued (run_optimization srv ty rl dr) (init fresh u None)) =
       [headers fresh]
   \<and> map req_headers (issued (get_resources srv p t) (init fresh u None)) = [headers fresh]
   \<and> map req_headers (issued (get_roi srv) (init fresh u None)) = [headers fresh]
   \<and> map req_headers (issued (chat srv m) (init fresh u None)) = [headers fresh]
   \<and> map req_headers (issued (get_recommendations srv) (init fresh u None)) = [headers fresh]"
proof -
  have "headers (session (init fresh u None)) = headers fresh"
    by (simp add: init_def)
  moreover have "k \<noteq> [] \<longrightarrow>
      headers (session (init fresh u (Some k))) ''Authorization'' = Some (''Bearer '' @ k)"
    by (simp add: init_def)
  ultimately show ?thesis
    by (simp add: issued_health issued_get_swarm_status issued_run_optimization
        issued_get_resources issued_get_roi issued_chat issued_get_recommendations)
qed

theorem bearer_header_on_every_request_witness:
  "''secret'' \<noteq> []
   \<and> map (\<lambda>q. req_headers q ''Authorization'')
       (issued (get_roi (\<lambda>q. None))
          (init \<lparr>headers = Map.empty\<rparr> (Some ''http://x'') (Some ''secret''))) =
       [Some ''Bearer secret'']
   \<and> map (\<lambda>q. req_headers q ''Authorization'')
       (issued (get_roi (\<lambda>q. None)) (init \<lparr>headers = Map.empty\<rparr> (Some ''http://x'') None)) =
       [None]"
  using bearer_header_on_every_request
    [where k = "''secret''" and fresh = "\<lparr>headers = Map.empty\<rparr>" and u = "Some ''http://x''"
       and srv = "\<lambda>q. None"]
  by (simp add: issued_get_roi init_def)

text \<open>
  C6 read as "every API key" does not hold. The empty string is a falsy key: a client
  constructed with it stores it and sends no \<open>Authorization\<close> header.
\<close>

theorem empty_api_key_sends_no_header:
  "api_key (init \<lparr>headers = Map.empty\<rparr> (Some ''http://x'') (Some [])) = Some []
   \<and> map (\<lambda>q. req_headers q ''Authorization'')
       (issued (get_roi (\<lambda>q. None)) (init \<lparr>headers = Map.empty\<rparr> (Some ''http://x'') (Some []))) =
       [None]"
  by (simp add: issued_get_roi init_def)



section \<open>The client object is not changed\<close>

text \<open>
  C8. Every method leaves the client object (its base URL, its API key and its session
  with the session's headers) as it was, whatever the server answers and also when the
  call raises.
\<close>

theorem client_configuration_unchanged:
  "self (snd (health srv s)) = self s
   \<and> self (snd (get_swarm_status srv s)) = self s
   \<and> self (snd (run_optimization srv ty rl dr s)) = self s
   \<and> self (snd (get_resources srv p t s)) = self s
   \<and> self (snd (get_roi srv s)) = self s
   \<and> self (snd (chat srv m s)) = self s
   \<and> self (snd (get_recommendations srv s)) = self s"
  by (simp add: health_def get_swarm_status_def run_optimization_def get_resources_def
      get_roi_def chat_def get_recommendations_def session_get_def session_post_def
      session_request_def)

end
